theory Spec2Isabelle
  imports Main "HOL-Library.AList"
begin

section \<open>Python values used by \<open>astrodask/fields.py\<close>\<close>

text \<open>
  Exceptions are values.  The constructors are the exception classes the module raises
  itself or receives from the built-ins it calls; \<open>OtherError cls msg\<close> is an exception
  of any other class (one that is not a \<open>KeyError\<close>), as a generator function may raise.
\<close>

datatype exn =
    KeyError string
  | TypeError string
  | ValueError string
  | IndexError string
  | StopIteration
  | OtherError string string

fun is_KeyError :: "exn \<Rightarrow> bool" where
  "is_KeyError (KeyError m) = True"
| "is_KeyError e = False"

text \<open>
  A Python \<open>dict\<close> keeps its keys in insertion order: it is an association list.
  \<open>d[k] = v\<close> replaces the value in place when \<open>k\<close> is present and appends the pair
  otherwise (\<open>AList.update\<close>); \<open>k in d\<close> and \<open>d[k]\<close> read the first pair of the key.
\<close>

definition dict_in :: "'k \<Rightarrow> ('k \<times> 'b) list \<Rightarrow> bool" where
  "dict_in k d = (map_of d k \<noteq> None)"

definition dict_set :: "('k \<times> 'b) list \<Rightarrow> 'k \<Rightarrow> 'b \<Rightarrow> ('k \<times> 'b) list" where
  "dict_set d k v = AList.update k v d"

text \<open>\<open>d.update(**other)\<close>: the pairs of \<open>other\<close> are stored into \<open>d\<close> one by one, in order.\<close>

definition dict_update :: "('k \<times> 'b) list \<Rightarrow> ('k \<times> 'b) list \<Rightarrow> ('k \<times> 'b) list" where
  "dict_update d other = fold (\<lambda>kv acc. AList.update (fst kv) (snd kv) acc) other d"

text \<open>\<open>d.values()\<close> and \<open>d.keys()\<close>, in insertion order.\<close>

definition dict_values :: "('k \<times> 'b) list \<Rightarrow> 'b list" where
  "dict_values d = map snd d"

definition dict_keys :: "('k \<times> 'b) list \<Rightarrow> 'k list" where
  "dict_keys d = map fst d"

section \<open>The data model\<close>

datatype FieldType = INTERNAL | IO | DERIVED

text \<open>
  \<open>FieldRecipe\<close>: \<open>'f\<close> is the type of generator functions, \<open>'v\<close> the type of arrays.
  The attribute \<open>type\<close> of the class is \<open>recipe_type\<close> here and \<open>name\<close> is \<open>recipe_name\<close>.
\<close>

record ('f, 'v) FieldRecipe =
  recipe_type :: FieldType
  recipe_name :: string
  description :: string
  units :: "string option"
  func :: "'f option"
  arr :: "'v option"

text \<open>\<open>FieldRecipe.__init__\<close>: fails when neither a function nor an array is given.\<close>

definition FieldRecipe_init ::
  "string \<Rightarrow> 'f option \<Rightarrow> 'v option \<Rightarrow> string \<Rightarrow> string option \<Rightarrow> FieldType
    \<Rightarrow> exn + ('f, 'v) FieldRecipe" where
  "FieldRecipe_init nm fn ar descr un ftype =
     (if fn = None \<and> ar = None then Inl (ValueError ''Need to specify either func or arr.'')
      else Inr \<lparr>recipe_type = ftype, recipe_name = nm, description = descr, units = un,
                func = fn, arr = ar\<rparr>)"

text \<open>\<open>DerivedFieldRecipe.__init__\<close>: the same with the type \<open>DERIVED\<close> and no array.\<close>

definition DerivedFieldRecipe_init ::
  "string \<Rightarrow> 'f option \<Rightarrow> string \<Rightarrow> string option \<Rightarrow> exn + ('f, 'v) FieldRecipe" where
  "DerivedFieldRecipe_init nm fn descr un = FieldRecipe_init nm fn None descr un DERIVED"

subsection \<open>Generator functions\<close>

text \<open>
  A recipe's \<open>func\<close> is a Python callable, opaque to the container.  What the container
  does with it is given by the record \<open>python\<close>, a parameter of every lookup:
  \<^item> \<open>getfullargspec\<close> is \<open>inspect.getfullargspec(func)\<close>, of which \<open>args\<close> and \<open>varkw\<close>
    are read;
  \<^item> \<open>get_kwargs\<close> is the helper of \<open>helpers_misc\<close>: the keyword parameters of \<open>func\<close>
    with their default values, \<open>None\<close> being Python's \<open>None\<close>;
  \<^item> \<open>func_name\<close> is \<open>func.__name__\<close>;
  \<^item> \<open>call f self kwargs\<close> is the call \<open>f(self, **kwargs)\<close>: it returns an array or
    raises, and it may have mutated \<open>self\<close> (a generator that reads \<open>self[''x'']\<close>
    can trigger another derivation), so it also yields the container it leaves.
\<close>

record argspec =
  args :: "string list"
  varkw :: "string option"

record ('f, 'c, 'v, 'a) python =
  getfullargspec :: "'f \<Rightarrow> argspec"
  get_kwargs :: "'f \<Rightarrow> (string \<times> 'a option) list"
  func_name :: "'f \<Rightarrow> string"
  call :: "'f \<Rightarrow> 'c \<Rightarrow> (string \<times> 'a) list \<Rightarrow> (exn + 'v) \<times> 'c"

subsection \<open>Outcome of a lookup\<close>

text \<open>
  What a lookup does: the value it returns or the exception it raises, the container
  after the call, and the generator calls it made, each with its keyword arguments.
\<close>

record ('r, 'c, 'i) outcome =
  result :: 'r
  after :: 'c
  invoked :: "'i list"

subsection \<open>Container objects in a store\<close>

text \<open>
  Python containers are objects, held by reference: the value of \<open>self.containers[k]\<close>
  is a reference to a child object, and one object may be reachable under several
  names and from several containers.  Where an operation mutates objects other than
  \<open>self\<close>, as \<open>merge\<close> does with the children, the containers live in a store: a list
  of objects, a reference being the index of an allocated object, and a newly created
  object going to the end of the list.  The attributes of an object are those set by
  \<open>__init__\<close>, with references for the children.
\<close>

type_synonym ref = nat

record ('f, 'v, 'a) object =
  obj_aliases :: "(string \<times> string) list"
  obj_name :: "string option"
  obj_fields :: "(string \<times> 'v) list"
  obj_fieldrecipes :: "(string \<times> ('f, 'v) FieldRecipe) list"
  obj_fieldrecipes_kwargs :: "(string \<times> 'a) list"
  obj_containers :: "(string \<times> ref) list"
  obj_internals :: "string list"

subsection \<open>The container\<close>

text \<open>
  \<open>FieldContainer\<close>: the attributes set by \<open>__init__\<close>.  \<open>'a\<close> is the type of the values
  of the shared keyword arguments \<open>fieldrecipes_kwargs\<close>.  Lookup, item assignment and
  deletion read and write the attributes of \<open>self\<close> only; for them the container is the
  value of \<open>self\<close>, with the children it holds, and an operation returns the new value
  of \<open>self\<close>.
\<close>

datatype ('f, 'v, 'a) FieldContainer = FieldContainer
  (aliases: "(string \<times> string) list")
  (name: "string option")
  (fields: "(string \<times> 'v) list")
  (fieldrecipes: "(string \<times> ('f, 'v) FieldRecipe) list")
  (fieldrecipes_kwargs: "(string \<times> 'a) list")
  (containers: "(string \<times> ('f, 'v, 'a) FieldContainer) list")
  (internals: "string list")

text \<open>The attribute writes \<open>self.fields = ...\<close>, \<open>self.containers = ...\<close> and so on.\<close>

fun with_aliases ::
  "('f, 'v, 'a) FieldContainer \<Rightarrow> (string \<times> string) list \<Rightarrow> ('f, 'v, 'a) FieldContainer" where
  "with_aliases (FieldContainer al nm fs rs kw cs it) al' = FieldContainer al' nm fs rs kw cs it"

fun with_fields ::
  "('f, 'v, 'a) FieldContainer \<Rightarrow> (string \<times> 'v) list \<Rightarrow> ('f, 'v, 'a) FieldContainer" where
  "with_fields (FieldContainer al nm fs rs kw cs it) fs' = FieldContainer al nm fs' rs kw cs it"

fun with_fieldrecipes ::
  "('f, 'v, 'a) FieldContainer \<Rightarrow> (string \<times> ('f, 'v) FieldRecipe) list
    \<Rightarrow> ('f, 'v, 'a) FieldContainer" where
  "with_fieldrecipes (FieldContainer al nm fs rs kw cs it) rs' =
     FieldContainer al nm fs rs' kw cs it"

fun with_containers ::
  "('f, 'v, 'a) FieldContainer \<Rightarrow> (string \<times> ('f, 'v, 'a) FieldContainer) list
    \<Rightarrow> ('f, 'v, 'a) FieldContainer" where
  "with_containers (FieldContainer al nm fs rs kw cs it) cs' =
     FieldContainer al nm fs rs kw cs' it"

text \<open>
  A value that is stored with \<open>__setitem__\<close> or returned by a lookup: a
  \<open>FieldContainer\<close> (\<open>isinstance(value, FieldContainer)\<close>) or anything else, an array.
\<close>

datatype ('f, 'v, 'a) item =
    Group "('f, 'v, 'a) FieldContainer"
  | Field 'v

section \<open>\<open>FieldContainer.fieldlength\<close>\<close>

text \<open>
  An entry of the \<open>.shape\<close> of an array: an integer, or the float \<open>nan\<close> that a lazy
  (dask) array has for a length it does not know yet.  \<open>eq_dim\<close> is Python's \<open>==\<close> on
  such entries: \<open>nan\<close> is equal to nothing, itself included.
\<close>

datatype dim = Known nat | NaN

fun eq_dim :: "dim \<Rightarrow> dim \<Rightarrow> bool" where
  "eq_dim (Known a) (Known b) = (a = b)"
| "eq_dim a b = False"

text \<open>\<open>shape[0]\<close> of a shape tuple: an \<open>IndexError\<close> for the empty tuple of a 0-d array.\<close>

fun subscript0 :: "dim list \<Rightarrow> exn + dim" where
  "subscript0 [] = Inl (IndexError ''tuple index out of range'')"
| "subscript0 (n # ns) = Inr n"

text \<open>
  \<open>all(first.shape[0] == v.shape[0] for v in self.fields.values())\<close>: both subscripts
  are evaluated for every \<open>v\<close>, and \<open>all\<close> stops at the first \<open>v\<close> that differs.
\<close>

fun all_first_dim :: "('v \<Rightarrow> dim list) \<Rightarrow> 'v \<Rightarrow> 'v list \<Rightarrow> exn + bool" where
  "all_first_dim shape first [] = Inr True"
| "all_first_dim shape first (v # vs) =
     (case subscript0 (shape first) of
        Inl e \<Rightarrow> Inl e
      | Inr a \<Rightarrow>
          (case subscript0 (shape v) of
             Inl e \<Rightarrow> Inl e
           | Inr b \<Rightarrow> if eq_dim a b then all_first_dim shape first vs else Inr False))"

text \<open>
  The property \<open>fieldlength\<close>.  \<open>shape\<close> is the array engine's \<open>.shape\<close>.  \<open>next(itr)\<close>
  on the iterator of an empty \<open>dict\<close> raises \<open>StopIteration\<close>; the result \<open>Inr None\<close> is
  Python's \<open>None\<close>.
\<close>

definition fieldlength ::
  "('v \<Rightarrow> dim list) \<Rightarrow> ('f, 'v, 'a) FieldContainer \<Rightarrow> exn + dim option" where
  "fieldlength shape self =
     (case dict_values (fields self) of
        [] \<Rightarrow> Inl StopIteration
      | first # rest \<Rightarrow>
          (case all_first_dim shape first (dict_values (fields self)) of
             Inl e \<Rightarrow> Inl e
           | Inr True \<Rightarrow> (case subscript0 (shape first) of Inl e \<Rightarrow> Inl e | Inr n \<Rightarrow> Inr (Some n))
           | Inr False \<Rightarrow> Inr None))"

section \<open>Construction\<close>

text \<open>
  \<open>FieldContainer(fieldrecipes_kwargs=kw)\<close>, every other argument left out: the
  container \<open>__init__\<close> creates for a child.
\<close>

definition empty_FieldContainer :: "(string \<times> 'a) list \<Rightarrow> ('f, 'v, 'a) FieldContainer" where
  "empty_FieldContainer kw = FieldContainer [] None [] [] kw [] [''uid'']"

text \<open>
  \<open>FieldContainer.__init__(*args, fieldrecipes_kwargs, containers, aliases, **kwargs)\<close>.
  \<open>posargs\<close> is the mapping given positionally as \<open>*args\<close> (empty when there is none), \<open>nm\<close> the
  keyword \<open>name\<close> popped from \<open>kwargs\<close>, and \<open>kwargs\<close> the remaining keywords.
\<close>

definition FieldContainer_init ::
  "(string \<times> 'v) list \<Rightarrow> (string \<times> 'a) list option \<Rightarrow> string list option
    \<Rightarrow> (string \<times> string) list option \<Rightarrow> string option \<Rightarrow> (string \<times> 'v) list
    \<Rightarrow> ('f, 'v, 'a) FieldContainer" where
  "FieldContainer_init posargs fkw cnames al nm kwargs =
     (let al' = (case al of None \<Rightarrow> [] | Some a \<Rightarrow> a);
          fkw' = (case fkw of None \<Rightarrow> [] | Some k \<Rightarrow> k);
          fs = dict_update (dict_update [] posargs) kwargs;
          cs = (case cnames of
                  None \<Rightarrow> []
                | Some ks \<Rightarrow> fold (\<lambda>k acc. dict_set acc k (empty_FieldContainer fkw')) ks [])
      in FieldContainer al' nm fs [] fkw' cs [''uid''])"

section \<open>Item assignment, aliases, deletion\<close>

text \<open>\<open>__setitem__\<close>: a \<open>FieldContainer\<close> goes to \<open>containers\<close>, anything else to \<open>fields\<close>.\<close>

fun dunder_setitem ::
  "('f, 'v, 'a) FieldContainer \<Rightarrow> string \<Rightarrow> ('f, 'v, 'a) item \<Rightarrow> ('f, 'v, 'a) FieldContainer" where
  "dunder_setitem self key (Group c) = with_containers self (dict_set (containers self) key c)"
| "dunder_setitem self key (Field v) = with_fields self (dict_set (fields self) key v)"

definition add_alias ::
  "('f, 'v, 'a) FieldContainer \<Rightarrow> string \<Rightarrow> string \<Rightarrow> ('f, 'v, 'a) FieldContainer" where
  "add_alias self alias nm = with_aliases self (dict_set (aliases self) alias nm)"

text \<open>
  \<open>__delitem__\<close>: the result (\<open>Inr ()\<close>, or the \<open>KeyError\<close> of \<open>del self.fields[key]\<close>)
  and the container as the call leaves it, also when it raises.
\<close>

definition dunder_delitem ::
  "('f, 'v, 'a) FieldContainer \<Rightarrow> string \<Rightarrow> (exn + unit) \<times> ('f, 'v, 'a) FieldContainer" where
  "dunder_delitem self key =
     (let self1 = (if dict_in key (fieldrecipes self)
                   then with_fieldrecipes self (AList.delete key (fieldrecipes self))
                   else self)
      in if dict_in key (fields self1)
         then (Inr (), with_fields self1 (AList.delete key (fields self1)))
         else (Inl (KeyError key), self1))"

section \<open>\<open>merge\<close>\<close>

text \<open>
  \<open>merge\<close> works on the store \<open>h\<close>; \<open>self\<close> and \<open>collection\<close> are references.  Reads
  \<open>h ! r\<close> and writes \<open>h[r := ob]\<close> are those of a reference \<open>r\<close> to an allocated
  object (\<open>r < length h\<close>), as every reference of a Python program is.

  \<open>FieldContainer(fieldrecipes_kwargs=kw)\<close>, the object \<open>merge\<close> creates for a child
  that \<open>self\<close> lacks.
\<close>

definition empty_object :: "(string \<times> 'a) list \<Rightarrow> ('f, 'v, 'a) object" where
  "empty_object kw =
     \<lparr>obj_aliases = [], obj_name = None, obj_fields = [], obj_fieldrecipes = [],
      obj_fieldrecipes_kwargs = kw, obj_containers = [], obj_internals = [''uid'']\<rparr>"

text \<open>
  \<open>if k not in self.containers: self.containers[k] = FieldContainer(...)\<close>: the new
  object is allocated at the end of the store and \<open>self\<close> refers to it under \<open>k\<close>.
\<close>

definition ensure_child :: "string \<Rightarrow> ref \<Rightarrow> ('f, 'v, 'a) object list \<Rightarrow> ('f, 'v, 'a) object list" where
  "ensure_child k self h =
     (if \<not> dict_in k (obj_containers (h ! self))
      then h[self := (h ! self)\<lparr>obj_containers := dict_set (obj_containers (h ! self)) k (length h)\<rparr>]
           @ [empty_object (obj_fieldrecipes_kwargs (h ! self))]
      else h)"






section \<open>Keyword arguments of a generator\<close>

text \<open>
  The keyword arguments \<open>_getitem\<close> builds for a generator: first the entries of
  \<open>dkwargs\<close> whose name is a keyword parameter of the function with default \<open>None\<close>;
  then, when the function takes \<open>**kwargs\<close>, every entry of \<open>dkwargs\<close> whose name is
  not among the function's \<open>args\<close>.  (Python iterates a set intersection in no specified
  order; the entries are kept in the order of \<open>dkwargs\<close>.)
\<close>

definition recipe_kwargs ::
  "argspec \<Rightarrow> (string \<times> 'a option) list \<Rightarrow> (string \<times> 'a) list \<Rightarrow> (string \<times> 'a) list" where
  "recipe_kwargs spec func_kwargs dkwargs =
     (let accept_kwargs = (varkw spec \<noteq> None);
          none_defaults = dict_keys (filter (\<lambda>kv. snd kv = None) func_kwargs);
          kwargs = filter (\<lambda>kv. fst kv \<in> set none_defaults) dkwargs
      in if accept_kwargs
         then dict_update kwargs (filter (\<lambda>kv. fst kv \<notin> set (args spec)) dkwargs)
         else kwargs)"

section \<open>Lookup\<close>

text \<open>\<open>_getitem(key, force_derived, update_dict)\<close>.\<close>

definition x_getitem ::
  "('f, ('f, 'v, 'a) FieldContainer, 'v, 'a) python \<Rightarrow> ('f, 'v, 'a) FieldContainer \<Rightarrow> string
    \<Rightarrow> bool \<Rightarrow> bool
    \<Rightarrow> (exn + ('f, 'v, 'a) item, ('f, 'v, 'a) FieldContainer, 'f \<times> (string \<times> 'a) list) outcome"
  where
  "x_getitem py self key0 force_derived update_dict =
     (let key = (case map_of (aliases self) key0 of Some k \<Rightarrow> k | None \<Rightarrow> key0)
      in case map_of (containers self) key of
           Some c \<Rightarrow> \<lparr>result = Inr (Group c), after = self, invoked = []\<rparr>
         | None \<Rightarrow>
             (case (map_of (fields self) key, force_derived) of
                (Some v, False) \<Rightarrow> \<lparr>result = Inr (Field v), after = self, invoked = []\<rparr>
              | _ \<Rightarrow>
                  (case map_of (fieldrecipes self) key of
                     None \<Rightarrow>
                       \<lparr>result = Inl (KeyError (''Unknown field '' @ [CHR 0x27] @ key @ [CHR 0x27])),
                        after = self, invoked = []\<rparr>
                   | Some recipe \<Rightarrow>
                       (case func recipe of
                          None \<Rightarrow>
                            \<lparr>result = Inl (TypeError ''unsupported callable''),
                             after = self, invoked = []\<rparr>
                        | Some f \<Rightarrow>
                            (let kwargs = recipe_kwargs (getfullargspec py f) (get_kwargs py f)
                                            (fieldrecipes_kwargs self)
                             in case call py f self kwargs of
                                  (Inl e, self') \<Rightarrow>
                                    \<lparr>result = Inl e, after = self', invoked = [(f, kwargs)]\<rparr>
                                | (Inr field, self') \<Rightarrow>
                                    \<lparr>result = Inr (Field field),
                                     after = (if update_dict
                                              then with_fields self' (dict_set (fields self') key field)
                                              else self'),
                                     invoked = [(f, kwargs)]\<rparr>)))))"

text \<open>\<open>__getitem__(key)\<close> is \<open>self._getitem(key)\<close>, with the defaults of \<open>_getitem\<close>.\<close>

definition dunder_getitem ::
  "('f, ('f, 'v, 'a) FieldContainer, 'v, 'a) python \<Rightarrow> ('f, 'v, 'a) FieldContainer \<Rightarrow> string
    \<Rightarrow> (exn + ('f, 'v, 'a) item, ('f, 'v, 'a) FieldContainer, 'f \<times> (string \<times> 'a) list) outcome"
  where
  "dunder_getitem py self key = x_getitem py self key False True"

text \<open>What \<open>get\<close> returns: the item found, or the caller's default \<open>value\<close>.\<close>

datatype ('i, 'd) lookup = Found 'i | Default 'd

text \<open>\<open>get(key, value, allow_derived, force_derived)\<close>.\<close>

definition get ::
  "('f, ('f, 'v, 'a) FieldContainer, 'v, 'a) python \<Rightarrow> ('f, 'v, 'a) FieldContainer \<Rightarrow> string
    \<Rightarrow> 'd \<Rightarrow> bool \<Rightarrow> bool
    \<Rightarrow> (exn + (('f, 'v, 'a) item, 'd) lookup, ('f, 'v, 'a) FieldContainer,
        'f \<times> (string \<times> 'a) list) outcome"
  where
  "get py self key value allow_derived force_derived =
     (if dict_in key (fieldrecipes self) \<and> \<not> allow_derived
      then \<lparr>result = Inl (KeyError (''Field '' @ [CHR 0x27] @ key @ [CHR 0x27]
                                      @ '' is derived (allow_derived=False)'')),
            after = self, invoked = []\<rparr>
      else (let r = x_getitem py self key force_derived False
            in case result r of
                 Inr it \<Rightarrow> \<lparr>result = Inr (Found it), after = after r, invoked = invoked r\<rparr>
               | Inl e \<Rightarrow>
                   if is_KeyError e
                   then \<lparr>result = Inr (Default value), after = after r, invoked = invoked r\<rparr>
                   else \<lparr>result = Inl e, after = after r, invoked = invoked r\<rparr>))"

section \<open>\<open>register_field\<close>\<close>

text \<open>The argument \<open>containernames\<close>: \<open>None\<close>, a string, a list, or a value of another type.\<close>

datatype containernames = PyNone | PyStr string | PyList "string list" | PyOther

text \<open>
  Storing the recipe under \<open>nm\<close> in the child \<open>c\<close> (\<open>container.fieldrecipes[name] = ...\<close>
  for a container of \<open>self.containers\<close>), and in \<open>self\<close>.
\<close>

definition register_child ::
  "string \<Rightarrow> ('f, 'v) FieldRecipe \<Rightarrow> string \<Rightarrow> ('f, 'v, 'a) FieldContainer
    \<Rightarrow> ('f, 'v, 'a) FieldContainer" where
  "register_child nm recipe c self =
     (case map_of (containers self) c of
        None \<Rightarrow> self
      | Some child \<Rightarrow>
          with_containers self
            (dict_set (containers self) c
               (with_fieldrecipes child (dict_set (fieldrecipes child) nm recipe))))"

definition register_self ::
  "string \<Rightarrow> ('f, 'v) FieldRecipe \<Rightarrow> ('f, 'v, 'a) FieldContainer \<Rightarrow> ('f, 'v, 'a) FieldContainer" where
  "register_self nm recipe self = with_fieldrecipes self (dict_set (fieldrecipes self) nm recipe)"

text \<open>
  \<open>register_field(containernames, name, description, units)(func)\<close>: the call and the
  application of the decorator it returns, in one step.  The targets are chosen by the
  call (a missing child is a \<open>KeyError\<close>), the recipe is stored by the decorator.
\<close>

definition register_field ::
  "('f, ('f, 'v, 'a) FieldContainer, 'v, 'a) python \<Rightarrow> ('f, 'v, 'a) FieldContainer
    \<Rightarrow> containernames \<Rightarrow> string option \<Rightarrow> string \<Rightarrow> string option \<Rightarrow> 'f
    \<Rightarrow> exn + ('f, 'v, 'a) FieldContainer" where
  "register_field py self cnames nm descr un fn =
     (let nm' = (case nm of None \<Rightarrow> func_name py fn | Some n \<Rightarrow> n);
          store = (\<lambda>targets.
                     case DerivedFieldRecipe_init nm' (Some fn) descr un of
                       Inl e \<Rightarrow> Inl e
                     | Inr recipe \<Rightarrow> Inr (fold (register_child nm' recipe) targets self))
      in case cnames of
           PyList cs \<Rightarrow>
             (case filter (\<lambda>c. \<not> dict_in c (containers self)) cs of
                [] \<Rightarrow> store cs
              | c # _ \<Rightarrow> Inl (KeyError c))
         | PyStr s \<Rightarrow>
             if s = ''all'' then store (dict_keys (containers self))
             else if dict_in s (containers self) then store [s]
             else Inl (KeyError s)
         | PyNone \<Rightarrow>
             (case DerivedFieldRecipe_init nm' (Some fn) descr un of
                Inl e \<Rightarrow> Inl e
              | Inr recipe \<Rightarrow> Inr (register_self nm' recipe self))
         | PyOther \<Rightarrow> Inl (ValueError ''Unknown type.''))"

section \<open>Example containers\<close>

text \<open>
  The generator of the scenario \<open>C.register_field(name="double")(lambda self, **kw:
  self["x"] * 2)\<close>, on containers where \<open>x\<close> is a stored array or is unknown (no alias,
  child container or recipe of that name): \<open>self["x"]\<close> is then the stored array, or the
  \<open>KeyError\<close> of \<open>_getitem\<close>.  Arrays are one-dimensional, lists of integers.  Every
  other function raises a \<open>RuntimeError\<close>.
\<close>

definition ex_call ::
  "string \<Rightarrow> (string, int list, int) FieldContainer \<Rightarrow> (string \<times> int) list
    \<Rightarrow> (exn + int list) \<times> (string, int list, int) FieldContainer" where
  "ex_call f self kwargs =
     (if f = ''double''
      then (case map_of (fields self) ''x'' of
              Some v \<Rightarrow> (Inr (map (\<lambda>n. n * 2) v), self)
            | None \<Rightarrow> (Inl (KeyError (''Unknown field '' @ [CHR 0x27] @ ''x'' @ [CHR 0x27])), self))
      else (Inl (OtherError ''RuntimeError'' ''failed''), self))"

definition ex_python ::
  "(string, (string, int list, int) FieldContainer, int list, int) python" where
  "ex_python =
     \<lparr>getfullargspec = (\<lambda>f. \<lparr>args = [''self''], varkw = Some ''kw''\<rparr>),
      get_kwargs = (\<lambda>f. []),
      func_name = (\<lambda>f. f),
      call = ex_call\<rparr>"

definition ex_recipe :: "(string, int list) FieldRecipe" where
  "ex_recipe =
     \<lparr>recipe_type = DERIVED, recipe_name = ''double'', description = [], units = None,
      func = Some ''double'', arr = None\<rparr>"

text \<open>\<open>FieldContainer()\<close>, then with \<open>x\<close> stored, then with the recipe \<open>double\<close> registered.\<close>

definition ex_empty :: "(string, int list, int) FieldContainer" where
  "ex_empty = FieldContainer [] None [] [] [] [] [''uid'']"

definition ex_x :: "(string, int list, int) FieldContainer" where
  "ex_x = FieldContainer [] None [(''x'', [1, 2, 3])] [] [] [] [''uid'']"

definition ex_double :: "(string, int list, int) FieldContainer" where
  "ex_double =
     FieldContainer [] None [(''x'', [1, 2, 3])] [(''double'', ex_recipe)] [] [] [''uid'']"

text \<open>The same with the derived array stored in \<open>fields\<close>, and with an alias of it.\<close>

definition ex_cached :: "(string, int list, int) FieldContainer" where
  "ex_cached =
     FieldContainer [] None [(''x'', [1, 2, 3]), (''double'', [2, 4, 6])]
       [(''double'', ex_recipe)] [] [] [''uid'']"

definition ex_aliased :: "(string, int list, int) FieldContainer" where
  "ex_aliased =
     FieldContainer [(''twice'', ''double'')] None [(''x'', [1, 2, 3]), (''double'', [2, 4, 6])]
       [(''double'', ex_recipe)] [] [] [''uid'']"

text \<open>The recipe without the array \<open>x\<close> it reads.\<close>

definition ex_nox :: "(string, int list, int) FieldContainer" where
  "ex_nox = FieldContainer [] None [] [(''double'', ex_recipe)] [] [] [''uid'']"

text \<open>Two arrays of three rows, and a third of four; the shape of a list is its length.\<close>

definition ex_rows :: "(string, int list, int) FieldContainer" where
  "ex_rows =
     FieldContainer [] None [(''x'', [1, 2, 3]), (''y'', [4, 5, 6])] [] [] [] [''uid'']"

definition ex_ragged :: "(string, int list, int) FieldContainer" where
  "ex_ragged =
     FieldContainer [] None [(''x'', [1, 2, 3]), (''y'', [4, 5, 6]), (''z'', [7, 8, 9, 10])]
       [] [] [] [''uid'']"

definition ex_shape :: "int list \<Rightarrow> dim list" where
  "ex_shape v = [Known (length v)]"

text \<open>
  Arrays given by their shape alone: three rows, a 0-d array, four rows; and a single
  array whose length is not known.
\<close>

definition ex_scalar :: "(string, dim list, int) FieldContainer" where
  "ex_scalar =
     FieldContainer [] None [(''x'', [Known 3]), (''s'', []), (''z'', [Known 4])]
       [] [] [] [''uid'']"

definition ex_lazy :: "(string, dim list, int) FieldContainer" where
  "ex_lazy = FieldContainer [] None [(''x'', [NaN])] [] [] [] [''uid'']"

text \<open>A recipe whose function raises a \<open>RuntimeError\<close>.\<close>

definition ex_failing :: "(string, int list, int) FieldContainer" where
  "ex_failing =
     FieldContainer [] None []
       [(''bad'', \<lparr>recipe_type = DERIVED, recipe_name = ''bad'', description = [], units = None,
                   func = Some ''boom'', arr = None\<rparr>)]
       [] [] [''uid'']"

text \<open>
  Stores.  An object with the given fields, recipes and children, and nothing else.
\<close>

definition ex_object ::
  "(string \<times> int list) list \<Rightarrow> (string \<times> (string, int list) FieldRecipe) list
    \<Rightarrow> (string \<times> ref) list \<Rightarrow> (string, int list, int) object" where
  "ex_object fs rs cs =
     \<lparr>obj_aliases = [], obj_name = None, obj_fields = fs, obj_fieldrecipes = rs,
      obj_fieldrecipes_kwargs = [], obj_containers = cs, obj_internals = [''uid'']\<rparr>"

text \<open>
  \<open>Y\<close> (reference 0) and \<open>X\<close> (reference 1) with a child \<open>g\<close> each (references 2 and
  3): the field \<open>a\<close> is \<open>2\<close> in \<open>Y\<close> and in its child, which also has the recipe
  \<open>double\<close>, and \<open>1\<close> in \<open>X\<close> and in its child.
\<close>

definition ex_store :: "(string, int list, int) object list" where
  "ex_store =
     [ex_object [(''a'', [2])] [] [(''g'', 2)],
      ex_object [(''a'', [1])] [] [(''g'', 3)],
      ex_object [(''a'', [2])] [(''double'', ex_recipe)] [],
      ex_object [(''a'', [1])] [] []]"

text \<open>
  The same after \<open>Y[''sub''] = X\<close>: \<open>X\<close> is also a child of \<open>Y\<close>.  And a store where
  the child \<open>g\<close> of \<open>X\<close> (reference 1) is the object that \<open>Y\<close> (reference 0) holds as \<open>h\<close>
  (reference 3), next to its own \<open>g\<close> (reference 2).
\<close>

definition ex_store_sub :: "(string, int list, int) object list" where
  "ex_store_sub =
     [ex_object [(''a'', [2])] [] [(''g'', 2), (''sub'', 1)],
      ex_object [(''a'', [1])] [] [(''g'', 3)],
      ex_object [(''a'', [2])] [(''double'', ex_recipe)] [],
      ex_object [] [] []]"

definition ex_store_shared :: "(string, int list, int) object list" where
  "ex_store_shared =
     [ex_object [] [] [(''g'', 2), (''h'', 3)],
      ex_object [] [] [(''g'', 3)],
      ex_object [(''a'', [2])] [] [],
      ex_object [] [] []]"

section \<open>Notions used by the properties\<close>






section \<open>Properties\<close>

subsection \<open>Reading an attribute after an attribute write\<close>

lemma with_fields_sel:
  "aliases (with_fields c x) = aliases c"
  "name (with_fields c x) = name c"
  "fields (with_fields c x) = x"
  "fieldrecipes (with_fields c x) = fieldrecipes c"
  "fieldrecipes_kwargs (with_fields c x) = fieldrecipes_kwargs c"
  "containers (with_fields c x) = containers c"
  "internals (with_fields c x) = internals c"
  by (cases c; simp)+

lemma with_containers_sel:
  "aliases (with_containers c y) = aliases c"
  "name (with_containers c y) = name c"
  "fields (with_containers c y) = fields c"
  "fieldrecipes (with_containers c y) = fieldrecipes c"
  "fieldrecipes_kwargs (with_containers c y) = fieldrecipes_kwargs c"
  "containers (with_containers c y) = y"
  "internals (with_containers c y) = internals c"
  by (cases c; simp)+

lemma with_fieldrecipes_sel:
  "aliases (with_fieldrecipes c z) = aliases c"
  "name (with_fieldrecipes c z) = name c"
  "fields (with_fieldrecipes c z) = fields c"
  "fieldrecipes (with_fieldrecipes c z) = z"
  "fieldrecipes_kwargs (with_fieldrecipes c z) = fieldrecipes_kwargs c"
  "containers (with_fieldrecipes c z) = containers c"
  "internals (with_fieldrecipes c z) = internals c"
  by (cases c; simp)+

lemma with_aliases_sel:
  "aliases (with_aliases c w) = w"
  "name (with_aliases c w) = name c"
  "fields (with_aliases c w) = fields c"
  "fieldrecipes (with_aliases c w) = fieldrecipes c"
  "fieldrecipes_kwargs (with_aliases c w) = fieldrecipes_kwargs c"
  "containers (with_aliases c w) = containers c"
  "internals (with_aliases c w) = internals c"
  by (cases c; simp)+

lemmas with_sel = with_fields_sel with_containers_sel with_fieldrecipes_sel with_aliases_sel

lemmas ex_defs = ex_call_def ex_python_def ex_recipe_def ex_empty_def ex_x_def ex_double_def
  ex_cached_def ex_aliased_def ex_nox_def ex_rows_def ex_ragged_def ex_shape_def
  ex_failing_def ex_scalar_def ex_lazy_def ex_object_def ex_store_def ex_store_sub_def
  ex_store_shared_def

lemmas op_defs = FieldContainer_init_def empty_FieldContainer_def dict_set_def dict_update_def
  dict_in_def dict_keys_def dict_values_def register_field_def register_self_def
  DerivedFieldRecipe_init_def FieldRecipe_init_def x_getitem_def dunder_getitem_def get_def
  recipe_kwargs_def dunder_delitem_def add_alias_def Let_def

subsection \<open>Dictionaries\<close>

lemma dict_in_keys: "dict_in k d = (k \<in> set (dict_keys d))"
  by (simp add: dict_in_def dict_keys_def map_of_eq_None_iff)

lemma map_of_dict_set: "map_of (dict_set d k v) = (map_of d)(k \<mapsto> v)"
  by (simp add: dict_set_def update_conv')

lemma dict_in_dict_set: "dict_in k (dict_set d j v) = (k = j \<or> dict_in k d)"
  by (simp add: dict_in_def map_of_dict_set)


lemma keys_dict_set_present: "dict_in k d \<Longrightarrow> dict_keys (dict_set d k v) = dict_keys d"
  by (simp add: dict_in_keys dict_set_def dict_keys_def update_keys)

lemma dict_update_empty: "dict_update d [] = d"
  by (simp add: dict_update_def)



subsection \<open>Lookup\<close>

text \<open>
  C1.  Resolution precedence of a read (\<open>_getitem\<close>).  The key is first replaced by what
  it is an alias of, once: \<open>key\<close> below is the resolved key, and it is not looked up in
  \<open>aliases\<close> again.  Then
  \<^item> if \<open>key\<close> names a child container, that container is returned, the container is
    unchanged and no generator is called;
  \<^item> else if \<open>key\<close> is in \<open>fields\<close> and \<open>force_derived\<close> is not set, the stored array is
    returned, the container is unchanged and no generator is called, whether or not a
    recipe of the same name exists;
  \<^item> else if \<open>key\<close> has a recipe with a function, exactly that function is called (so it
    is when \<open>force_derived\<close> is set and the array is stored), with the keyword arguments
    built from \<open>fieldrecipes_kwargs\<close>; its array or its exception is the result, and the
    array is stored under \<open>key\<close> when \<open>update_dict\<close> is set;
  \<^item> else, with no recipe, the read fails with a \<open>KeyError\<close>.
\<close>

theorem lookup_precedence:
  fixes py :: "('f, ('f, 'v, 'a) FieldContainer, 'v, 'a) python"
  assumes key: "key = (case map_of (aliases self) key0 of Some k \<Rightarrow> k | None \<Rightarrow> key0)"
  shows "(\<forall>c. map_of (containers self) key = Some c \<longrightarrow>
            x_getitem py self key0 force_derived update_dict
              = \<lparr>result = Inr (Group c), after = self, invoked = []\<rparr>)
       \<and> (\<forall>v. \<not> dict_in key (containers self) \<and> map_of (fields self) key = Some v
              \<and> \<not> force_derived \<longrightarrow>
            x_getitem py self key0 force_derived update_dict
              = \<lparr>result = Inr (Field v), after = self, invoked = []\<rparr>)
       \<and> (\<forall>recipe f kwargs.
            \<not> dict_in key (containers self)
              \<and> (\<not> dict_in key (fields self) \<or> force_derived)
              \<and> map_of (fieldrecipes self) key = Some recipe \<and> func recipe = Some f
              \<and> kwargs = recipe_kwargs (getfullargspec py f) (get_kwargs py f)
                           (fieldrecipes_kwargs self) \<longrightarrow>
            x_getitem py self key0 force_derived update_dict
              = (case call py f self kwargs of
                   (Inl e, self') \<Rightarrow> \<lparr>result = Inl e, after = self', invoked = [(f, kwargs)]\<rparr>
                 | (Inr field, self') \<Rightarrow>
                     \<lparr>result = Inr (Field field),
                      after = (if update_dict
                               then with_fields self' (dict_set (fields self') key field)
                               else self'),
                      invoked = [(f, kwargs)]\<rparr>))
       \<and> (\<not> dict_in key (containers self) \<and> (\<not> dict_in key (fields self) \<or> force_derived)
              \<and> \<not> dict_in key (fieldrecipes self) \<longrightarrow>
            x_getitem py self key0 force_derived update_dict
              = \<lparr>result = Inl (KeyError (''Unknown field '' @ [CHR 0x27] @ key @ [CHR 0x27])),
                 after = self, invoked = []\<rparr>)"
  unfolding key
  by (auto simp: x_getitem_def dict_in_def Let_def
           split: option.splits bool.splits sum.splits prod.splits)

theorem lookup_precedence_witness:
  "x_getitem ex_python ex_aliased ''twice'' False True
     = \<lparr>result = Inr (Field [2, 4, 6]), after = ex_aliased, invoked = []\<rparr>
   \<and> x_getitem ex_python ex_aliased ''twice'' True False
     = \<lparr>result = Inr (Field [2, 4, 6]), after = ex_aliased, invoked = [(''double'', [])]\<rparr>
   \<and> x_getitem ex_python ex_aliased ''y'' False True
     = \<lparr>result = Inl (KeyError (''Unknown field '' @ [CHR 0x27] @ ''y'' @ [CHR 0x27])),
        after = ex_aliased, invoked = []\<rparr>"
  using lookup_precedence [where key = "''double''" and self = ex_aliased
      and key0 = "''twice''" and py = ex_python and force_derived = False and update_dict = True]
    lookup_precedence [where key = "''double''" and self = ex_aliased
      and key0 = "''twice''" and py = ex_python and force_derived = True and update_dict = False]
    lookup_precedence [where key = "''y''" and self = ex_aliased
      and key0 = "''y''" and py = ex_python and force_derived = False and update_dict = True]
  by (simp add: ex_defs op_defs)

subsection \<open>\<open>fieldlength\<close>\<close>

lemma eq_dim_trans: "eq_dim a b \<Longrightarrow> eq_dim a c \<Longrightarrow> eq_dim b c"
  by (cases a; cases b; cases c) simp_all

lemma all_first_dim_same:
  "subscript0 (shape first) = Inr (Known N) \<Longrightarrow> \<forall>v\<in>set vs. subscript0 (shape v) = Inr (Known N)
    \<Longrightarrow> all_first_dim shape first vs = Inr True"
  by (induction vs) simp_all

lemma all_first_dim_differ:
  "subscript0 (shape first) = Inr a \<Longrightarrow> \<forall>v\<in>set vs. \<exists>n. subscript0 (shape v) = Inr n
    \<Longrightarrow> \<exists>v\<in>set vs. \<exists>b. subscript0 (shape v) = Inr b \<and> \<not> eq_dim a b
    \<Longrightarrow> all_first_dim shape first vs = Inr False"
proof (induction vs)
  case Nil
  then show ?case by simp
next
  case (Cons v vs)
  from Cons.prems(2) obtain b where b: "subscript0 (shape v) = Inr b" by auto
  show ?case
  proof (cases "eq_dim a b")
    case True
    with Cons b show ?thesis by auto
  next
    case False
    with Cons.prems(1) b show ?thesis by simp
  qed
qed

text \<open>
  C8, as the code has it.  For a container whose \<open>fields\<close> are not empty: if every
  array has the same first-dimension length \<open>N\<close>, a number (\<open>shape[0]\<close> is \<open>N\<close> for
  each), \<open>fieldlength\<close> returns \<open>N\<close>; if every array has a first dimension and two of
  them disagree on its length (\<open>shape[0] == shape[0]\<close> is false of them, as it is of
  two different numbers and of an unknown length \<open>nan\<close> and anything),
  \<open>fieldlength\<close> returns \<open>None\<close> and does not raise.
\<close>

theorem fieldlength_uniform:
  assumes nonempty: "fields self \<noteq> []"
  shows "((\<forall>v\<in>set (dict_values (fields self)). subscript0 (shape v) = Inr (Known N))
            \<longrightarrow> fieldlength shape self = Inr (Some (Known N)))
       \<and> ((\<forall>v\<in>set (dict_values (fields self)). \<exists>n. subscript0 (shape v) = Inr n)
            \<and> (\<exists>v\<in>set (dict_values (fields self)). \<exists>w\<in>set (dict_values (fields self)).
                  \<exists>a b. subscript0 (shape v) = Inr a \<and> subscript0 (shape w) = Inr b
                    \<and> \<not> eq_dim a b)
            \<longrightarrow> fieldlength shape self = Inr None)"
proof -
  from nonempty obtain first rest where vs: "dict_values (fields self) = first # rest"
    by (cases "fields self") (auto simp: dict_values_def)
  show ?thesis
  proof (intro conjI impI)
    assume same: "\<forall>v\<in>set (dict_values (fields self)). subscript0 (shape v) = Inr (Known N)"
    with vs have f: "subscript0 (shape first) = Inr (Known N)" by simp
    from all_first_dim_same [OF f same]
    show "fieldlength shape self = Inr (Some (Known N))"
      by (simp add: fieldlength_def vs f)
  next
    assume h: "(\<forall>v\<in>set (dict_values (fields self)). \<exists>n. subscript0 (shape v) = Inr n)
      \<and> (\<exists>v\<in>set (dict_values (fields self)). \<exists>w\<in>set (dict_values (fields self)).
            \<exists>a b. subscript0 (shape v) = Inr a \<and> subscript0 (shape w) = Inr b
              \<and> \<not> eq_dim a b)"
    with vs obtain f where f: "subscript0 (shape first) = Inr f" by auto
    from h obtain v w a b where vw: "v \<in> set (dict_values (fields self))"
      "w \<in> set (dict_values (fields self))" "subscript0 (shape v) = Inr a"
      "subscript0 (shape w) = Inr b" "\<not> eq_dim a b"
      by blast
    have "\<not> eq_dim f a \<or> \<not> eq_dim f b"
      using vw(5) eq_dim_trans by blast
    with vw have "\<exists>u\<in>set (dict_values (fields self)). \<exists>d. subscript0 (shape u) = Inr d
        \<and> \<not> eq_dim f d"
      by blast
    from all_first_dim_differ [OF f conjunct1 [OF h] this]
    show "fieldlength shape self = Inr None"
      by (simp add: fieldlength_def vs)
  qed
qed

theorem fieldlength_uniform_witness:
  "fields ex_rows \<noteq> [] \<and> fieldlength ex_shape ex_rows = Inr (Some (Known 3))
   \<and> dunder_setitem ex_rows ''z'' (Field [7, 8, 9, 10]) = ex_ragged
   \<and> fields ex_ragged \<noteq> [] \<and> fieldlength ex_shape ex_ragged = Inr None
   \<and> fields ex_lazy \<noteq> [] \<and> fieldlength (\<lambda>v. v) ex_lazy = Inr None"
proof -
  have ne: "fields ex_rows \<noteq> []" "fields ex_ragged \<noteq> []" "fields ex_lazy \<noteq> []"
    by (simp_all add: ex_defs)
  have same: "\<forall>v\<in>set (dict_values (fields ex_rows)). subscript0 (ex_shape v) = Inr (Known 3)"
    by (simp add: ex_defs dict_values_def)
  have differ:
    "(\<forall>v\<in>set (dict_values (fields ex_ragged)). \<exists>n. subscript0 (ex_shape v) = Inr n)
     \<and> (\<exists>v\<in>set (dict_values (fields ex_ragged)). \<exists>w\<in>set (dict_values (fields ex_ragged)).
           \<exists>a b. subscript0 (ex_shape v) = Inr a \<and> subscript0 (ex_shape w) = Inr b
             \<and> \<not> eq_dim a b)"
    by (auto simp: ex_defs dict_values_def)
  have unknown:
    "(\<forall>v\<in>set (dict_values (fields ex_lazy)). \<exists>n. subscript0 v = Inr n)
     \<and> (\<exists>v\<in>set (dict_values (fields ex_lazy)). \<exists>w\<in>set (dict_values (fields ex_lazy)).
           \<exists>a b. subscript0 v = Inr a \<and> subscript0 w = Inr b \<and> \<not> eq_dim a b)"
    by (auto simp: ex_defs dict_values_def)
  have "fieldlength ex_shape ex_rows = Inr (Some (Known 3))"
    using fieldlength_uniform [OF ne(1), of ex_shape 3] same by blast
  moreover have "fieldlength ex_shape ex_ragged = Inr None"
    using fieldlength_uniform [OF ne(2), of ex_shape 3] differ by blast
  moreover have "fieldlength (\<lambda>v. v) ex_lazy = Inr None"
    using fieldlength_uniform [OF ne(3), of "\<lambda>v. v" 3] unknown by blast
  moreover have "dunder_setitem ex_rows ''z'' (Field [7, 8, 9, 10]) = ex_ragged"
    by (simp add: ex_defs dict_set_def)
  ultimately show ?thesis using ne by simp
qed

theorem fieldlength_zero_dim_counterexample:
  "fields ex_scalar \<noteq> []
   \<and> map_of (fields ex_scalar) ''x'' = Some [Known 3]
   \<and> map_of (fields ex_scalar) ''z'' = Some [Known 4]
   \<and> \<not> eq_dim (Known 3) (Known 4)
   \<and> fieldlength (\<lambda>v. v) ex_scalar = Inl (IndexError ''tuple index out of range'')"
  by (simp add: ex_defs fieldlength_def dict_values_def)

text \<open>
  C10.  For a container whose \<open>fields\<close> mapping is empty, reading \<open>fieldlength\<close> raises
  \<open>StopIteration\<close> (from \<open>next\<close> on the empty iterator) and returns no value.
\<close>

theorem fieldlength_empty:
  "fields self = [] \<Longrightarrow> fieldlength shape self = Inl StopIteration"
  by (simp add: fieldlength_def dict_values_def)

theorem fieldlength_empty_witness:
  "fields ex_empty = [] \<and> fieldlength ex_shape ex_empty = Inl StopIteration"
  using fieldlength_empty [where self = ex_empty and shape = ex_shape]
  by (simp add: ex_defs)

subsection \<open>Derivation through \<open>get\<close> and through item reads\<close>

text \<open>
  C2, as the code has it.  \<open>get\<close> calls \<open>_getitem\<close> with \<open>update_dict=False\<close>: on a key
  that only has a recipe (no alias, child container or stored array of that name) it
  calls the generator and returns its array, and the container afterwards is the one
  the generator left: \<open>get\<close> itself stores nothing in \<open>fields\<close>.  The derived array is
  cached by the item read \<open>C[key]\<close> (\<open>__getitem__\<close>): after it the key is in \<open>fields\<close>,
  and a later \<open>get\<close> (not forced) returns the cached array without calling the
  generator, as long as the generator has not made the key an alias or a child
  container.
\<close>

theorem derivation_cached_by_getitem_not_get:
  fixes py :: "('f, ('f, 'v, 'a) FieldContainer, 'v, 'a) python"
  assumes noalias: "map_of (aliases self) key = None"
    and nogroup: "\<not> dict_in key (containers self)"
    and nofield: "\<not> dict_in key (fields self)"
    and recipe: "map_of (fieldrecipes self) key = Some recipe" "func recipe = Some f"
    and kwargs: "kwargs = recipe_kwargs (getfullargspec py f) (get_kwargs py f)
                   (fieldrecipes_kwargs self)"
    and returns: "call py f self kwargs = (Inr field, self')"
  shows "get py self key dflt True False
           = \<lparr>result = Inr (Found (Field field)), after = self', invoked = [(f, kwargs)]\<rparr>
       \<and> dunder_getitem py self key
           = \<lparr>result = Inr (Field field),
              after = with_fields self' (dict_set (fields self') key field),
              invoked = [(f, kwargs)]\<rparr>
       \<and> dict_in key (fields (after (dunder_getitem py self key)))
       \<and> (map_of (aliases self') key = None \<and> \<not> dict_in key (containers self') \<longrightarrow>
            get py (after (dunder_getitem py self key)) key dflt True False
              = \<lparr>result = Inr (Found (Field field)), after = after (dunder_getitem py self key),
                 invoked = []\<rparr>)"
proof -
  have x: "x_getitem py self key False ud
    = \<lparr>result = Inr (Field field),
       after = (if ud then with_fields self' (dict_set (fields self') key field) else self'),
       invoked = [(f, kwargs)]\<rparr>" for ud
    using noalias nogroup nofield recipe returns unfolding kwargs
    by (simp add: x_getitem_def dict_in_def Let_def)
  have g: "get py self key dflt True False
           = \<lparr>result = Inr (Found (Field field)), after = self', invoked = [(f, kwargs)]\<rparr>"
    by (simp add: get_def x Let_def)
  have d: "dunder_getitem py self key
           = \<lparr>result = Inr (Field field),
              after = with_fields self' (dict_set (fields self') key field),
              invoked = [(f, kwargs)]\<rparr>"
    by (simp add: dunder_getitem_def x)
  have c: "map_of (fields (with_fields self' (dict_set (fields self') key field))) key = Some field"
    by (simp add: with_sel map_of_dict_set)
  have again: "get py (with_fields self' (dict_set (fields self') key field)) key dflt True False
              = \<lparr>result = Inr (Found (Field field)),
                 after = with_fields self' (dict_set (fields self') key field), invoked = []\<rparr>"
    if "map_of (aliases self') key = None" "\<not> dict_in key (containers self')"
    using that c by (simp add: get_def x_getitem_def Let_def with_sel dict_in_def)
  show ?thesis
    using g d c again by (simp add: dict_in_def)
qed

theorem derivation_cached_by_getitem_not_get_witness:
  "get ex_python ex_double ''double'' (None :: unit option) True False
     = \<lparr>result = Inr (Found (Field [2, 4, 6])), after = ex_double, invoked = [(''double'', [])]\<rparr>
   \<and> dunder_getitem ex_python ex_double ''double''
     = \<lparr>result = Inr (Field [2, 4, 6]), after = ex_cached, invoked = [(''double'', [])]\<rparr>
   \<and> get ex_python ex_cached ''double'' (None :: unit option) True False
     = \<lparr>result = Inr (Found (Field [2, 4, 6])), after = ex_cached, invoked = []\<rparr>"
proof -
  have pre: "map_of (aliases ex_double) ''double'' = None"
    "\<not> dict_in ''double'' (containers ex_double)"
    "\<not> dict_in ''double'' (fields ex_double)"
    "map_of (fieldrecipes ex_double) ''double'' = Some ex_recipe"
    "func ex_recipe = Some ''double''"
    "[] = recipe_kwargs (getfullargspec ex_python ''double'') (get_kwargs ex_python ''double'')
            (fieldrecipes_kwargs ex_double)"
    "call ex_python ''double'' ex_double [] = (Inr [2, 4, 6], ex_double)"
    by (simp_all add: ex_defs op_defs)
  have cached: "with_fields ex_double (dict_set (fields ex_double) ''double'' [2, 4, 6]) = ex_cached"
    by (simp add: ex_defs op_defs)
  note t = derivation_cached_by_getitem_not_get [OF pre, where dflt = "None :: unit option"]
  from t have g: "get ex_python ex_double ''double'' (None :: unit option) True False
     = \<lparr>result = Inr (Found (Field [2, 4, 6])), after = ex_double, invoked = [(''double'', [])]\<rparr>"
    by simp
  from t have d: "dunder_getitem ex_python ex_double ''double''
     = \<lparr>result = Inr (Field [2, 4, 6]), after = ex_cached, invoked = [(''double'', [])]\<rparr>"
    by (simp add: cached)
  from t pre(1, 2)
  have "get ex_python (after (dunder_getitem ex_python ex_double ''double'')) ''double''
          (None :: unit option) True False
     = \<lparr>result = Inr (Found (Field [2, 4, 6])),
        after = after (dunder_getitem ex_python ex_double ''double''), invoked = []\<rparr>"
    by blast
  then have "get ex_python ex_cached ''double'' (None :: unit option) True False
     = \<lparr>result = Inr (Found (Field [2, 4, 6])), after = ex_cached, invoked = []\<rparr>"
    by (simp add: d)
  with g d show ?thesis by simp
qed

theorem get_caches_derivation_counterexample:
  "register_field ex_python
       (dunder_setitem (FieldContainer_init [] None None None None []) ''x'' (Field [1, 2, 3]))
       PyNone (Some ''double'') [] None ''double'' = Inr ex_double
   \<and> get ex_python ex_double ''double'' (None :: unit option) True False
       = \<lparr>result = Inr (Found (Field [2, 4, 6])), after = ex_double, invoked = [(''double'', [])]\<rparr>
   \<and> \<not> dict_in ''double''
         (fields (after (get ex_python ex_double ''double'' (None :: unit option) True False)))
   \<and> invoked (get ex_python
         (after (get ex_python ex_double ''double'' (None :: unit option) True False))
         ''double'' (None :: unit option) True False) = [(''double'', [])]"
  by (simp add: ex_defs op_defs)

subsection \<open>Exceptions of a generator\<close>

text \<open>
  C5, as the code has it.  When a lookup reaches the derivation (the resolved key is no
  child container, it is not stored or \<open>force_derived\<close> is set, and its recipe has a
  function) and the generator raises \<open>e\<close>, then \<open>_getitem\<close> and the item read
  \<open>__getitem__\<close> raise exactly \<open>e\<close>, whatever its class; \<open>get\<close> raises exactly \<open>e\<close> when
  \<open>e\<close> is not a \<open>KeyError\<close>.
\<close>

theorem generator_exception_propagates:
  fixes py :: "('f, ('f, 'v, 'a) FieldContainer, 'v, 'a) python"
  assumes key: "key = (case map_of (aliases self) key0 of Some k \<Rightarrow> k | None \<Rightarrow> key0)"
    and nogroup: "\<not> dict_in key (containers self)"
    and nofield: "\<not> dict_in key (fields self) \<or> force_derived"
    and recipe: "map_of (fieldrecipes self) key = Some recipe" "func recipe = Some f"
    and raises: "fst (call py f self (recipe_kwargs (getfullargspec py f) (get_kwargs py f)
                   (fieldrecipes_kwargs self))) = Inl e"
  shows "result (x_getitem py self key0 force_derived update_dict) = Inl e
       \<and> (\<not> dict_in key (fields self) \<longrightarrow> result (dunder_getitem py self key0) = Inl e)
       \<and> ((allow_derived \<or> \<not> dict_in key0 (fieldrecipes self)) \<and> \<not> is_KeyError e \<longrightarrow>
            result (get py self key0 dflt allow_derived force_derived) = Inl e)"
proof -
  have x: "result (x_getitem py self key0 fd ud) = Inl e"
    if "\<not> dict_in key (fields self) \<or> fd" for fd ud
    using that nogroup recipe raises unfolding key
    by (auto simp: x_getitem_def dict_in_def Let_def
        split: option.splits bool.splits sum.splits prod.splits)
  show ?thesis
    using x [OF nofield] x [of False True]
    by (auto simp: dunder_getitem_def get_def Let_def)
qed

theorem generator_exception_propagates_witness:
  "result (dunder_getitem ex_python ex_failing ''bad'') = Inl (OtherError ''RuntimeError'' ''failed'')
   \<and> result (get ex_python ex_failing ''bad'' (None :: unit option) True False)
       = Inl (OtherError ''RuntimeError'' ''failed'')
   \<and> result (dunder_getitem ex_python ex_nox ''double'')
       = Inl (KeyError (''Unknown field '' @ [CHR 0x27] @ ''x'' @ [CHR 0x27]))"
  using generator_exception_propagates [where py = ex_python and self = ex_failing
      and key0 = "''bad''" and key = "''bad''" and force_derived = False and f = "''boom''"
      and e = "OtherError ''RuntimeError'' ''failed''" and allow_derived = True
      and dflt = "None :: unit option"]
    generator_exception_propagates [where py = ex_python and self = ex_nox
      and key0 = "''double''" and key = "''double''" and force_derived = False
      and f = "''double''" and recipe = ex_recipe
      and e = "KeyError (''Unknown field '' @ [CHR 0x27] @ ''x'' @ [CHR 0x27])"]
  by (simp add: ex_defs op_defs)

theorem get_swallows_generator_KeyError_counterexample:
  "map_of (fieldrecipes ex_nox) ''double'' = Some ex_recipe
   \<and> call ex_python ''double'' ex_nox []
       = (Inl (KeyError (''Unknown field '' @ [CHR 0x27] @ ''x'' @ [CHR 0x27])), ex_nox)
   \<and> dunder_getitem ex_python ex_nox ''double''
       = \<lparr>result = Inl (KeyError (''Unknown field '' @ [CHR 0x27] @ ''x'' @ [CHR 0x27])),
          after = ex_nox, invoked = [(''double'', [])]\<rparr>
   \<and> get ex_python ex_nox ''double'' (None :: unit option) True False
       = \<lparr>result = Inr (Default None), after = ex_nox, invoked = [(''double'', [])]\<rparr>"
  by (simp add: ex_defs op_defs)

subsection \<open>\<open>get\<close> with \<open>allow_derived=False\<close>\<close>

text \<open>
  C6, as the code has it.  \<open>get(key, dflt, allow_derived=False)\<close> fails with a
  \<open>KeyError\<close> exactly when a recipe is registered under \<open>key\<close> (the key as given),
  whether or not an array of that name is stored in \<open>fields\<close>; the container is then
  unchanged and no generator is called.  With no recipe under \<open>key\<close> it is the lookup
  \<open>get(key, dflt)\<close>.
\<close>

theorem get_allow_derived_False:
  fixes py :: "('f, ('f, 'v, 'a) FieldContainer, 'v, 'a) python"
  shows "(case result (get py self key dflt False force_derived) of
            Inl e \<Rightarrow> is_KeyError e | Inr r \<Rightarrow> False) = dict_in key (fieldrecipes self)
         \<and> (if dict_in key (fieldrecipes self)
            then get py self key dflt False force_derived
                   = \<lparr>result = Inl (KeyError (''Field '' @ [CHR 0x27] @ key @ [CHR 0x27]
                                      @ '' is derived (allow_derived=False)'')),
                      after = self, invoked = []\<rparr>
            else get py self key dflt False force_derived
                   = get py self key dflt True force_derived)"
  by (simp add: get_def Let_def split: sum.splits)

theorem get_allow_derived_False_witness:
  "dict_in ''double'' (fieldrecipes ex_cached) \<and> \<not> dict_in ''x'' (fieldrecipes ex_cached)
   \<and> get ex_python ex_cached ''double'' (None :: unit option) False False
       = \<lparr>result = Inl (KeyError (''Field '' @ [CHR 0x27] @ ''double'' @ [CHR 0x27]
                                    @ '' is derived (allow_derived=False)'')),
          after = ex_cached, invoked = []\<rparr>
   \<and> get ex_python ex_cached ''x'' (None :: unit option) False False
       = \<lparr>result = Inr (Found (Field [1, 2, 3])), after = ex_cached, invoked = []\<rparr>"
  using get_allow_derived_False [where py = ex_python and self = ex_cached
      and key = "''double''" and dflt = "None :: unit option" and force_derived = False]
    get_allow_derived_False [where py = ex_python and self = ex_cached
      and key = "''x''" and dflt = "None :: unit option" and force_derived = False]
  by (simp add: ex_defs op_defs)

theorem get_allow_derived_False_counterexample:
  "after (dunder_getitem ex_python ex_double ''double'') = ex_cached
   \<and> map_of (fields ex_cached) ''double'' = Some [2, 4, 6]
   \<and> map_of (fieldrecipes ex_cached) ''double'' = Some ex_recipe
   \<and> get ex_python ex_cached ''double'' (None :: unit option) False False
       = \<lparr>result = Inl (KeyError (''Field '' @ [CHR 0x27] @ ''double'' @ [CHR 0x27]
                                    @ '' is derived (allow_derived=False)'')),
          after = ex_cached, invoked = []\<rparr>"
  by (simp add: ex_defs op_defs)

subsection \<open>Item assignment and deletion\<close>




text \<open>
  C7, as the code has it.  \<open>__delitem__\<close> removes the key from \<open>fieldrecipes\<close> and from
  \<open>fields\<close> and leaves every other key, the aliases and the child containers as they
  were.  It raises \<open>KeyError\<close> exactly when the key is not in \<open>fields\<close>; this includes
  the key that is only in \<open>fieldrecipes\<close>, whose recipe is removed before the error is
  raised.  A key without a recipe is tolerated.
\<close>

theorem delitem_semantics:
  "fst (dunder_delitem self key)
     = (if dict_in key (fields self) then Inr () else Inl (KeyError key))
   \<and> map_of (fieldrecipes (snd (dunder_delitem self key)))
       = (map_of (fieldrecipes self))(key := None)
   \<and> map_of (fields (snd (dunder_delitem self key))) = (map_of (fields self))(key := None)
   \<and> aliases (snd (dunder_delitem self key)) = aliases self
   \<and> containers (snd (dunder_delitem self key)) = containers self"
  by (auto simp: dunder_delitem_def Let_def with_sel dict_in_def delete_conv' fun_eq_iff)

theorem delitem_semantics_witness:
  "fst (dunder_delitem ex_cached ''double'') = Inr ()
   \<and> fst (dunder_delitem ex_x ''x'') = Inr ()
   \<and> fst (dunder_delitem ex_double ''double'') = Inl (KeyError ''double'')
   \<and> map_of (fieldrecipes (snd (dunder_delitem ex_double ''double''))) ''double'' = None"
  using delitem_semantics [of ex_cached "''double''"] delitem_semantics [of ex_x "''x''"]
    delitem_semantics [of ex_double "''double''"]
  by (simp add: ex_defs dict_in_def)

theorem delitem_recipe_only_counterexample:
  "dict_in ''double'' (fieldrecipes ex_double) \<and> \<not> dict_in ''double'' (fields ex_double)
   \<and> dunder_delitem ex_double ''double'' = (Inl (KeyError ''double''), ex_x)"
  by (simp add: ex_defs op_defs)

subsection \<open>\<open>merge\<close>\<close>







text \<open>The store after \<open>ensure_child\<close>.\<close>

lemma length_ensure_child: "length h \<le> length (ensure_child k s h)"
  by (simp add: ensure_child_def)

























end
